theory Spec2Isabelle
  imports Main
begin

section \<open>JavaScript values of the credential manager\<close>

text \<open>
  The embedding follows the class \<^verbatim>\<open>GraphService\<close> (services/graph.ts). A JavaScript
  string is a \<^typ>\<open>string\<close>. The service compares strings, tests them for emptiness, joins
  them and splits them at the full stop, and does nothing else with them, so how a
  character beyond ASCII is laid out in \<^typ>\<open>char\<close>s does not matter. \<^verbatim>\<open>undefined\<close> in a
  \<^verbatim>\<open>string | undefined\<close> position is \<^term>\<open>None\<close>. A thrown exception is the \<^term>\<open>Inl\<close>
  side of a sum. Calls of \<^verbatim>\<open>console.error\<close> only write diagnostics and are left out.
\<close>

datatype js_error = Error (message: string)

text \<open>
  What \<^verbatim>\<open>JSON.parse\<close> can return, and \<^verbatim>\<open>undefined\<close> for a property that is not there.
  A number keeps its source text: the service never looks at the value of a number.
  An object lists its properties in insertion order.
\<close>

datatype js_value =
    JUndefined
  | JNull
  | JBoolean bool
  | JNumber string
  | JString string
  | JArray "js_value list"
  | JObject "(string \<times> js_value) list"

text \<open>\<^verbatim>\<open>if (x)\<close> on a \<^verbatim>\<open>string | undefined\<close>: the empty string and \<^verbatim>\<open>undefined\<close> are falsy.\<close>

definition truthy :: "string option \<Rightarrow> string option" where
  "truthy v = (case v of Some (c # cs) \<Rightarrow> Some (c # cs) | _ \<Rightarrow> None)"

text \<open>\<^verbatim>\<open>token.split(".")\<close>: the segments between the separators; never an empty array.\<close>

fun split :: "char \<Rightarrow> string \<Rightarrow> string list" where
  "split sep [] = [[]]"
| "split sep (c # cs) =
     (if c = sep then [] # split sep cs
      else (case split sep cs of
              [] \<Rightarrow> [[c]]
            | seg # segs \<Rightarrow> (c # seg) # segs))"

text \<open>
  \<^verbatim>\<open>payload.aud\<close>: reading a property of \<^verbatim>\<open>null\<close> (or \<^verbatim>\<open>undefined\<close>) throws a TypeError;
  an object gives its own property or \<^verbatim>\<open>undefined\<close>; arrays, strings, numbers and booleans
  have no property of that name.
\<close>

definition get_aud :: "js_value \<Rightarrow> js_error + js_value" where
  "get_aud payload =
     (case payload of
        JNull \<Rightarrow> Inl (Error ''TypeError: Cannot read properties of null'')
      | JUndefined \<Rightarrow> Inl (Error ''TypeError: Cannot read properties of undefined'')
      | JObject props \<Rightarrow> Inr (case map_of props ''aud'' of None \<Rightarrow> JUndefined | Some v \<Rightarrow> v)
      | _ \<Rightarrow> Inr JUndefined)"

definition isArray :: "js_value \<Rightarrow> bool" where
  "isArray v = (case v of JArray _ \<Rightarrow> True | _ \<Rightarrow> False)"

definition elements :: "js_value \<Rightarrow> js_value list" where
  "elements v = (case v of JArray xs \<Rightarrow> xs | _ \<Rightarrow> [])"

text \<open>\<^verbatim>\<open>xs.includes(v)\<close> for a string \<open>v\<close>: some element is that same string.\<close>

definition array_includes :: "js_value list \<Rightarrow> js_value \<Rightarrow> bool" where
  "array_includes xs v = (v \<in> set xs)"

section \<open>The outside world\<close>

text \<open>
  Everything the service calls but does not define is a field of \<open>world\<close>: the two
  built-ins used by \<^verbatim>\<open>validateToken\<close> (\<^term>\<open>None\<close> when they throw), and what the MSAL
  constructor, the token issuer, the Graph client factory and the organization probe
  answer when they are called. Each service call makes each of these calls at most once,
  so one answer per call is enough. Of the probe only the outcome is kept: what the Graph
  client does inside it (it asks its token supplier) is not part of the service.
\<close>

datatype issuer_result =
    IssuerRejects js_error
  | IssuerNull
  | IssuerResult (accessToken: string)

record world =
  atob :: "string \<Rightarrow> string option"
  JSON_parse :: "string \<Rightarrow> js_value option"
  new_ConfidentialClientApplication :: "js_error option"
  acquireTokenByClientCredential :: issuer_result
  initWithMiddleware :: "js_error + nat"
  organization_get :: "js_error option"

section \<open>Token validation\<close>

definition GRAPH_AUDIENCE :: string where
  "GRAPH_AUDIENCE = ''https://graph.microsoft.com''"

definition validateToken :: "world \<Rightarrow> string \<Rightarrow> string option" where
  "validateToken w token =
     (let tokenSplits = split (CHR ''.'') token in
      if length tokenSplits \<noteq> 3 then None
      else
        (case atob w (tokenSplits ! 1) of
           None \<Rightarrow> None
         | Some decoded \<Rightarrow>
             (case JSON_parse w decoded of
                None \<Rightarrow> None
              | Some payload \<Rightarrow>
                  (case get_aud payload of
                     Inl e \<Rightarrow> None
                   | Inr aud \<Rightarrow>
                       (let audiences = (if isArray aud then elements aud else [aud]) in
                        if \<not> array_includes audiences (JString GRAPH_AUDIENCE) then None
                        else Some token)))))"

text \<open>
  The specification's words for the accepted payloads: the audience claim equals the Graph
  resource URI, or is an array containing it.
\<close>

definition has_graph_audience :: "js_value \<Rightarrow> bool" where
  "has_graph_audience payload =
     (case payload of
        JObject props \<Rightarrow>
          (case map_of props ''aud'' of
             Some (JString a) \<Rightarrow> a = GRAPH_AUDIENCE
           | Some (JArray xs) \<Rightarrow> JString GRAPH_AUDIENCE \<in> set xs
           | _ \<Rightarrow> False)
      | _ \<Rightarrow> False)"

text \<open>The decoded and parsed middle segment, when both steps succeed.\<close>

definition decoded_payload :: "world \<Rightarrow> string \<Rightarrow> js_value option" where
  "decoded_payload w segment =
     (case atob w segment of None \<Rightarrow> None | Some decoded \<Rightarrow> JSON_parse w decoded)"

section \<open>The service\<close>

text \<open>
  The function handed to the Graph client as \<^verbatim>\<open>authProvider.getAccessToken\<close>:
  \<^verbatim>\<open>async () => validatedToken\<close> in static-token mode, \<^verbatim>\<open>() => this.acquireToken()\<close> in
  client-credential mode. A client is the object \<^verbatim>\<open>Client.initWithMiddleware\<close> returns:
  its identity (the number the factory answered with) and the provider it was given.
\<close>

datatype auth_provider = FixedToken string | MsalBacked

datatype graph_client = Client (instance_id: nat) (authProvider: auth_provider)

datatype msal_app =
  ConfidentialClientApplication (app_clientId: string) (app_clientSecret: string) (app_authority: string)

record graph_service =
  client :: "graph_client option"
  isInitialized :: bool
  msalApp :: "msal_app option"

text \<open>\<^verbatim>\<open>new GraphService()\<close>: the field initialisers of the class.\<close>

definition new_GraphService :: graph_service where
  "new_GraphService = \<lparr>client = None, isInitialized = False, msalApp = None\<rparr>"

text \<open>
  \<^verbatim>\<open>process.env\<close> as a call finds it. It may differ from one call to the next; it does not
  change while one call runs.
\<close>

type_synonym env = "string \<rightharpoonup> string"

record auth_status =
  isAuthenticated :: bool
  tenantId :: "string option"
  clientId :: "string option"

text \<open>What a call does to the outside, in order.\<close>

datatype event =
    Read_env string
  | Call_new_ConfidentialClientApplication msal_app
  | Call_acquireTokenByClientCredential "string list"
  | Call_initWithMiddleware auth_provider
  | Call_api_get string

definition CLIENT_CREDENTIAL_SCOPE :: string where
  "CLIENT_CREDENTIAL_SCOPE = ''https://graph.microsoft.com/.default''"

definition MISSING_VARIABLES_MESSAGE :: string where
  "MISSING_VARIABLES_MESSAGE =
     ''Not authenticated. Check AZURE_TENANT_ID, AZURE_CLIENT_ID, and AZURE_CLIENT_SECRET environment variables.''"

definition ACQUIRE_FAILED_MESSAGE :: string where
  "ACQUIRE_FAILED_MESSAGE =
     ''Failed to acquire access token. Check AZURE_TENANT_ID, AZURE_CLIENT_ID, and AZURE_CLIENT_SECRET.''"

subsection \<open>initializeClient\<close>

text \<open>
  \<^verbatim>\<open>initializeClient\<close> is an async function with one \<^verbatim>\<open>await\<close>, on the issuer's answer.
  It runs in two pieces: from its call up to that \<^verbatim>\<open>await\<close> (or to its return, when it
  never gets there), and from the issuer's answer to its return. Nothing else of the
  program runs inside a piece; other calls may run between the two.
\<close>

datatype progress = Returned | Awaiting_issuer

text \<open>Lines 32 to 41: the \<^verbatim>\<open>AUTH_TOKEN\<close> branch. It always returns.\<close>

definition static_token_branch :: "world \<Rightarrow> string \<Rightarrow> graph_service \<Rightarrow> graph_service \<times> event list" where
  "static_token_branch w envToken s =
     (case validateToken w envToken of
        None \<Rightarrow> (s, [])
      | Some validatedToken \<Rightarrow>
          (case initWithMiddleware w of
             Inl e \<Rightarrow> (s, [Call_initWithMiddleware (FixedToken validatedToken)])
           | Inr i \<Rightarrow>
               (s\<lparr>client := Some (Client i (FixedToken validatedToken)), isInitialized := True\<rparr>,
                [Call_initWithMiddleware (FixedToken validatedToken)])))"

text \<open>Lines 45 to 65: the client-credential branch up to the request to the issuer.\<close>

definition client_credential_branch ::
  "world \<Rightarrow> env \<Rightarrow> graph_service \<Rightarrow> progress \<times> graph_service \<times> event list" where
  "client_credential_branch w env s =
     (let reads = [Read_env ''AZURE_TENANT_ID'', Read_env ''AZURE_CLIENT_ID'',
                   Read_env ''AZURE_CLIENT_SECRET''] in
      case (truthy (env ''AZURE_TENANT_ID''), truthy (env ''AZURE_CLIENT_ID''),
            truthy (env ''AZURE_CLIENT_SECRET'')) of
        (Some tenant, Some cid, Some secret) \<Rightarrow>
          (let app = ConfidentialClientApplication cid secret
                       (''https://login.microsoftonline.com/'' @ tenant) in
           case new_ConfidentialClientApplication w of
             Some e \<Rightarrow> (Returned, s, reads @ [Call_new_ConfidentialClientApplication app])
           | None \<Rightarrow>
               (Awaiting_issuer, s\<lparr>msalApp := Some app\<rparr>,
                reads @ [Call_new_ConfidentialClientApplication app,
                         Call_acquireTokenByClientCredential [CLIENT_CREDENTIAL_SCOPE]]))
      | _ \<Rightarrow> (Returned, s, reads))"

definition initializeClient_begin ::
  "world \<Rightarrow> env \<Rightarrow> graph_service \<Rightarrow> progress \<times> graph_service \<times> event list" where
  "initializeClient_begin w env s =
     (if isInitialized s then (Returned, s, [])
      else
        (case truthy (env ''AUTH_TOKEN'') of
           Some envToken \<Rightarrow>
             (let (s', evs) = static_token_branch w envToken s
              in (Returned, s', Read_env ''AUTH_TOKEN'' # evs))
         | None \<Rightarrow>
             (let (p, s', evs) = client_credential_branch w env s
              in (p, s', Read_env ''AUTH_TOKEN'' # evs))))"

text \<open>Lines 65 to 83: from the issuer's answer to the return.\<close>

definition initializeClient_resume :: "world \<Rightarrow> graph_service \<Rightarrow> graph_service \<times> event list" where
  "initializeClient_resume w s =
     (case acquireTokenByClientCredential w of
        IssuerRejects e \<Rightarrow> (s, [])
      | IssuerNull \<Rightarrow> (s, [])
      | IssuerResult t \<Rightarrow>
          (case initWithMiddleware w of
             Inl e \<Rightarrow> (s, [Call_initWithMiddleware MsalBacked])
           | Inr i \<Rightarrow>
               (s\<lparr>client := Some (Client i MsalBacked), isInitialized := True\<rparr>,
                [Call_initWithMiddleware MsalBacked])))"

text \<open>The whole function, when nothing runs between its two pieces.\<close>

definition initializeClient :: "world \<Rightarrow> env \<Rightarrow> graph_service \<Rightarrow> graph_service \<times> event list" where
  "initializeClient w env s =
     (case initializeClient_begin w env s of
        (Returned, s', evs) \<Rightarrow> (s', evs)
      | (Awaiting_issuer, s', evs) \<Rightarrow>
          (let (s'', evs') = initializeClient_resume w s' in (s'', evs @ evs')))"

subsection \<open>acquireToken and the token supplier\<close>

definition acquireToken :: "world \<Rightarrow> graph_service \<Rightarrow> (js_error + string) \<times> event list" where
  "acquireToken w s =
     (case msalApp s of
        None \<Rightarrow> (Inl (Error ''MSAL not initialized''), [])
      | Some app \<Rightarrow>
          (case acquireTokenByClientCredential w of
             IssuerRejects e \<Rightarrow> Inl e
           | IssuerNull \<Rightarrow> Inl (Error ACQUIRE_FAILED_MESSAGE)
           | IssuerResult t \<Rightarrow> Inr t,
           [Call_acquireTokenByClientCredential [CLIENT_CREDENTIAL_SCOPE]]))"

text \<open>What the Graph client gets when it invokes the \<^verbatim>\<open>getAccessToken\<close> it was built with.\<close>

definition getAccessToken ::
  "world \<Rightarrow> graph_service \<Rightarrow> graph_client \<Rightarrow> (js_error + string) \<times> event list" where
  "getAccessToken w s c =
     (case authProvider c of
        FixedToken validatedToken \<Rightarrow> (Inr validatedToken, [])
      | MsalBacked \<Rightarrow> acquireToken w s)"

subsection \<open>The public methods\<close>

definition getAuthStatus ::
  "world \<Rightarrow> env \<Rightarrow> graph_service \<Rightarrow> auth_status \<times> graph_service \<times> event list" where
  "getAuthStatus w env s =
     (let (s', evs) = initializeClient w env s in
      case client s' of
        None \<Rightarrow> (\<lparr>isAuthenticated = False, tenantId = None, clientId = None\<rparr>, s', evs)
      | Some c \<Rightarrow>
          (case organization_get w of
             None \<Rightarrow>
               (\<lparr>isAuthenticated = True,
                 tenantId = env ''AZURE_TENANT_ID'',
                 clientId = env ''AZURE_CLIENT_ID''\<rparr>,
                s',
                evs @ [Call_api_get ''/organization'',
                       Read_env ''AZURE_TENANT_ID'', Read_env ''AZURE_CLIENT_ID''])
           | Some e \<Rightarrow>
               (\<lparr>isAuthenticated = False, tenantId = None, clientId = None\<rparr>, s',
                evs @ [Call_api_get ''/organization''])))"

definition getClient ::
  "world \<Rightarrow> env \<Rightarrow> graph_service \<Rightarrow> (js_error + graph_client) \<times> graph_service \<times> event list" where
  "getClient w env s =
     (let (s', evs) = initializeClient w env s in
      case client s' of
        None \<Rightarrow> (Inl (Error MISSING_VARIABLES_MESSAGE), s', evs)
      | Some c \<Rightarrow> (Inr c, s', evs))"

definition isAuthenticated_method :: "graph_service \<Rightarrow> bool" where
  "isAuthenticated_method s = (client s \<noteq> None \<and> isInitialized s)"

text \<open>\<^verbatim>\<open>message.includes(name)\<close>: the name occurs somewhere in the message.\<close>

fun contains :: "string \<Rightarrow> string \<Rightarrow> bool" where
  "contains [] name = (name = [])"
| "contains (c # cs) name = (take (length name) (c # cs) = name \<or> contains cs name)"

subsection \<open>Calls in progress\<close>

text \<open>
  Only \<^verbatim>\<open>initializeClient\<close> writes the fields of the service, and it is the only method
  that waits for the issuer with the guard already passed. A process is the service
  together with the number of \<^verbatim>\<open>initializeClient\<close> runs that wait at their \<^verbatim>\<open>await\<close>.
  \<open>Enter\<close>: a call of \<^verbatim>\<open>getClient\<close> or \<^verbatim>\<open>getAuthStatus\<close> enters \<^verbatim>\<open>initializeClient\<close> and
  runs its first piece. \<open>Answer\<close>: the issuer answers one waiting run, which runs its
  second piece. A call that meets no other call is \<open>Enter\<close> followed at once by its
  \<open>Answer\<close>.
\<close>

type_synonym process = "graph_service \<times> nat"

datatype step = Enter world env | Answer world

fun exec :: "step \<Rightarrow> process \<Rightarrow> process \<times> event list" where
  "exec (Enter w env) (s, waiting) =
     (case initializeClient_begin w env s of
        (Returned, s', evs) \<Rightarrow> ((s', waiting), evs)
      | (Awaiting_issuer, s', evs) \<Rightarrow> ((s', Suc waiting), evs))"
| "exec (Answer w) (s, waiting) =
     (if waiting = 0 then ((s, waiting), [])
      else (let (s', evs) = initializeClient_resume w s in ((s', waiting - 1), evs)))"

fun run :: "step list \<Rightarrow> process \<Rightarrow> process \<times> event list" where
  "run [] p = (p, [])"
| "run (x # xs) p =
     (let (p', evs) = exec x p; (p'', evs') = run xs p' in (p'', evs @ evs'))"

definition start :: process where
  "start = (new_GraphService, 0)"

text \<open>
  The specification's credential mode, read off the service: the mode of the token
  supplier of the client in use, and none while there is no client. The branch that
  \<^verbatim>\<open>initializeClient\<close> takes under an environment is \<open>selected_mode\<close>.
\<close>

datatype credential_mode = StaticToken | ClientCredential

definition active_mode :: "graph_service \<Rightarrow> credential_mode option" where
  "active_mode s =
     (case client s of
        None \<Rightarrow> None
      | Some c \<Rightarrow>
          (case authProvider c of
             FixedToken t \<Rightarrow> Some StaticToken
           | MsalBacked \<Rightarrow> Some ClientCredential))"

definition selected_mode :: "env \<Rightarrow> credential_mode" where
  "selected_mode env =
     (case truthy (env ''AUTH_TOKEN'') of Some t \<Rightarrow> StaticToken | None \<Rightarrow> ClientCredential)"

text \<open>The state invariant: the flag is only set with a client in place.\<close>

definition client_when_initialized :: "graph_service \<Rightarrow> bool" where
  "client_when_initialized s = (isInitialized s \<longrightarrow> client s \<noteq> None)"

text \<open>
  What holds of every process the steps can reach: the flag is set exactly when there is a
  client, and an MSAL application is in place whenever a run waits for the issuer or the
  client in use asks the issuer for its tokens.
\<close>

definition process_invariant :: "process \<Rightarrow> bool" where
  "process_invariant p =
     (case p of (s, waiting) \<Rightarrow>
        (isInitialized s \<longleftrightarrow> client s \<noteq> None) \<and>
        (0 < waiting \<longrightarrow> msalApp s \<noteq> None) \<and>
        (case client s of
           None \<Rightarrow> True
         | Some c \<Rightarrow> authProvider c = MsalBacked \<longrightarrow> msalApp s \<noteq> None))"

section \<open>Concrete worlds and environments\<close>

text \<open>
  The tokens of the repository's tests: \<^verbatim>\<open>btoa(JSON.stringify({aud: ...}))\<close> between
  \<^verbatim>\<open>header\<close> and \<^verbatim>\<open>signature\<close>. \<open>test_world\<close> answers as the platform does on the
  texts that occur below (and throws on every other text); the MSAL constructor
  succeeds, the issuer returns the tests' mock token, the factory returns object 1 and
  the probe succeeds.
\<close>

definition graph_payload_text :: string where
  \<open>graph_payload_text = ''{"aud":"https://graph.microsoft.com"}''\<close>

definition expired_payload_text :: string where
  \<open>expired_payload_text = ''{"aud":"https://graph.microsoft.com","exp":0}''\<close>

definition array_payload_text :: string where
  \<open>array_payload_text = ''{"aud":["https://graph.microsoft.com","https://other.com"]}''\<close>

definition other_payload_text :: string where
  \<open>other_payload_text = ''{"aud":"https://other-service.com"}''\<close>

definition test_atob :: "string \<Rightarrow> string option" where
  "test_atob = map_of
     [(''eyJhdWQiOiJodHRwczovL2dyYXBoLm1pY3Jvc29mdC5jb20ifQ=='', graph_payload_text),
      (''eyJhdWQiOiJodHRwczovL2dyYXBoLm1pY3Jvc29mdC5jb20iLCJleHAiOjB9'', expired_payload_text),
      (''eyJhdWQiOlsiaHR0cHM6Ly9ncmFwaC5taWNyb3NvZnQuY29tIiwiaHR0cHM6Ly9vdGhlci5jb20iXX0='',
       array_payload_text),
      (''eyJhdWQiOiJodHRwczovL290aGVyLXNlcnZpY2UuY29tIn0='', other_payload_text)]"

definition test_JSON_parse :: "string \<Rightarrow> js_value option" where
  "test_JSON_parse = map_of
     [(graph_payload_text, JObject [(''aud'', JString ''https://graph.microsoft.com'')]),
      (expired_payload_text,
       JObject [(''aud'', JString ''https://graph.microsoft.com''), (''exp'', JNumber ''0'')]),
      (array_payload_text,
       JObject [(''aud'', JArray [JString ''https://graph.microsoft.com'',
                                  JString ''https://other.com''])]),
      (other_payload_text, JObject [(''aud'', JString ''https://other-service.com'')])]"

definition test_world :: world where
  "test_world =
     \<lparr>atob = test_atob, JSON_parse = test_JSON_parse,
      new_ConfidentialClientApplication = None,
      acquireTokenByClientCredential = IssuerResult ''mock-access-token'',
      initWithMiddleware = Inr 1,
      organization_get = None\<rparr>"

definition valid_token :: string where
  "valid_token = ''header.eyJhdWQiOiJodHRwczovL2dyYXBoLm1pY3Jvc29mdC5jb20ifQ==.signature''"

definition expired_unsigned_token :: string where
  "expired_unsigned_token = ''.eyJhdWQiOiJodHRwczovL2dyYXBoLm1pY3Jvc29mdC5jb20iLCJleHAiOjB9.''"

definition credential_env :: env where
  "credential_env =
     [''AZURE_TENANT_ID'' \<mapsto> ''t'', ''AZURE_CLIENT_ID'' \<mapsto> ''c'',
      ''AZURE_CLIENT_SECRET'' \<mapsto> ''s'']"

definition invalid_token_env :: env where
  "invalid_token_env = credential_env(''AUTH_TOKEN'' \<mapsto> ''invalid-token'')"

definition empty_token_env :: env where
  "empty_token_env = credential_env(''AUTH_TOKEN'' \<mapsto> [])"

definition static_token_env :: env where
  "static_token_env = [''AUTH_TOKEN'' \<mapsto> valid_token]"

definition rotated_env :: env where
  "rotated_env = [''AZURE_TENANT_ID'' \<mapsto> ''t2'', ''AZURE_CLIENT_ID'' \<mapsto> ''c2'']"

text \<open>The service after a successful client-credential initialization in \<open>test_world\<close>.\<close>

definition ready_service :: graph_service where
  "ready_service =
     \<lparr>client = Some (Client 1 MsalBacked), isInitialized = True,
      msalApp = Some (ConfidentialClientApplication ''c'' ''s''
                        ''https://login.microsoftonline.com/t'')\<rparr>"

definition failing_probe_world :: world where
  "failing_probe_world = test_world\<lparr>organization_get := Some (Error ''API Error'')\<rparr>"

definition rejecting_issuer_world :: world where
  "rejecting_issuer_world =
     test_world\<lparr>acquireTokenByClientCredential :=
                  IssuerRejects (Error ''Invalid client secret'')\<rparr>"



section \<open>Properties\<close>

subsection \<open>Splitting and the audience check\<close>

lemma split_not_Nil: "split sep s \<noteq> []"
  by (induction s) (auto split: list.splits)

lemma split_without_sep: "sep \<notin> set a \<Longrightarrow> split sep a = [a]"
  by (induction a) auto

lemma split_at_sep: "sep \<notin> set a \<Longrightarrow> split sep (a @ sep # rest) = a # split sep rest"
  by (induction a) auto

lemma split_three:
  assumes "sep \<notin> set a" and "sep \<notin> set p" and "sep \<notin> set b"
  shows "split sep (a @ sep # p @ sep # b) = [a, p, b]"
  using assms by (simp add: split_at_sep split_without_sep)

lemma audience_check_iff:
  "(case get_aud payload of
      Inl e \<Rightarrow> False
    | Inr aud \<Rightarrow>
        array_includes (if isArray aud then elements aud else [aud]) (JString GRAPH_AUDIENCE))
   = has_graph_audience payload"
  by (cases payload)
     (auto simp: get_aud_def has_graph_audience_def isArray_def elements_def array_includes_def
           split: option.splits js_value.splits)

lemma validateToken_returns_input: "validateToken w t = Some x \<Longrightarrow> x = t"
  by (auto simp: validateToken_def Let_def split: if_splits option.splits sum.splits)

lemma truthy_Some: "truthy v = Some t \<longleftrightarrow> v = Some t \<and> t \<noteq> []"
  by (auto simp: truthy_def split: option.splits list.splits)

subsection \<open>The pieces of initializeClient\<close>

lemma begin_when_initialized:
  "isInitialized s \<Longrightarrow> initializeClient_begin w env s = (Returned, s, [])"
  by (simp add: initializeClient_begin_def)

lemma initializeClient_when_initialized:
  "isInitialized s \<Longrightarrow> initializeClient w env s = (s, [])"
  by (simp add: initializeClient_def begin_when_initialized)

lemma getClient_when_initialized:
  "isInitialized s \<Longrightarrow> client s = Some c \<Longrightarrow> getClient w env s = (Inr c, s, [])"
  by (simp add: getClient_def initializeClient_when_initialized)



lemma static_token_branch_cases:
  "static_token_branch w t s = (s', evs) \<Longrightarrow>
     msalApp s' = msalApp s \<and>
     (s' = s \<or>
      (\<exists>i v. s' = s\<lparr>client := Some (Client i (FixedToken v)), isInitialized := True\<rparr>))"
  by (auto simp: static_token_branch_def split: option.splits sum.splits)

lemma client_credential_branch_cases:
  "client_credential_branch w env s = (p, s', evs) \<Longrightarrow>
     (p = Returned \<and> s' = s) \<or>
     (p = Awaiting_issuer \<and> (\<exists>app. s' = s\<lparr>msalApp := Some app\<rparr>))"
  by (auto simp: client_credential_branch_def Let_def split: option.splits prod.splits)

lemma begin_cases:
  assumes "initializeClient_begin w env s = (p, s', evs)"
  shows "(p = Returned \<and> s' = s) \<or>
         (p = Returned \<and> \<not> isInitialized s \<and>
            (\<exists>i v. s' = s\<lparr>client := Some (Client i (FixedToken v)), isInitialized := True\<rparr>)) \<or>
         (p = Awaiting_issuer \<and> \<not> isInitialized s \<and>
            (\<exists>app. s' = s\<lparr>msalApp := Some app\<rparr>))"
proof (cases "isInitialized s")
  case True
  with assms show ?thesis by (simp add: begin_when_initialized)
next
  case False
  show ?thesis
  proof (cases "truthy (env ''AUTH_TOKEN'')")
    case None
    obtain q t es where c: "client_credential_branch w env s = (q, t, es)"
      by (cases "client_credential_branch w env s") auto
    with assms False None have "p = q" "s' = t"
      by (simp_all add: initializeClient_begin_def)
    with client_credential_branch_cases [OF c] False show ?thesis by auto
  next
    case (Some t)
    obtain u es where c: "static_token_branch w t s = (u, es)"
      by (cases "static_token_branch w t s") auto
    with assms False Some have "p = Returned" "s' = u"
      by (simp_all add: initializeClient_begin_def)
    with static_token_branch_cases [OF c] False show ?thesis by auto
  qed
qed

lemma resume_cases:
  "initializeClient_resume w s = (s', evs) \<Longrightarrow>
     s' = s \<or> (\<exists>i. s' = s\<lparr>client := Some (Client i MsalBacked), isInitialized := True\<rparr>)"
  by (auto simp: initializeClient_resume_def split: issuer_result.splits sum.splits)

lemma method_states:
  "fst (snd (getAuthStatus w env s)) = fst (initializeClient w env s)"
  "fst (snd (getClient w env s)) = fst (initializeClient w env s)"
  by (auto simp: getAuthStatus_def getClient_def split_beta split: option.splits)

lemma getClient_events:
  "snd (snd (getClient w env s)) = snd (initializeClient w env s)"
  by (auto simp: getClient_def split_beta split: option.splits)

subsection \<open>Steps of a process\<close>

lemma exec_invariant:
  assumes "process_invariant p"
  shows "process_invariant (fst (exec x p))"
proof (cases p)
  case (Pair s n)
  show ?thesis
  proof (cases x)
    case (Enter w env)
    obtain q s' evs where b: "initializeClient_begin w env s = (q, s', evs)"
      by (cases "initializeClient_begin w env s") auto
    from begin_cases [OF b] assms Pair Enter b show ?thesis
      by (auto simp: process_invariant_def split: option.splits)
  next
    case (Answer w)
    obtain s' evs where r: "initializeClient_resume w s = (s', evs)"
      by (cases "initializeClient_resume w s") auto
    from resume_cases [OF r] assms Pair Answer r show ?thesis
      by (auto simp: process_invariant_def split: option.splits)
  qed
qed

lemma run_invariant:
  "process_invariant p \<Longrightarrow> process_invariant (fst (run steps p))"
proof (induction steps arbitrary: p)
  case Nil
  then show ?case by simp
next
  case (Cons x xs)
  from Cons.IH [OF exec_invariant [OF Cons.prems, of x]] show ?case
    by (simp add: split_beta)
qed

lemma start_invariant: "process_invariant start"
  by (simp add: process_invariant_def start_def new_GraphService_def)

lemma reached_invariant: "process_invariant (fst (run steps start))"
  by (rule run_invariant [OF start_invariant])

lemma reached_client_iff:
  "fst (run steps start) = (s, n) \<Longrightarrow> isInitialized s \<longleftrightarrow> client s \<noteq> None"
  using reached_invariant [of steps] by (simp add: process_invariant_def)

lemma run_when_initialized:
  "isInitialized s \<Longrightarrow> run steps (s, 0) = ((s, 0), [])"
proof (induction steps)
  case Nil
  then show ?case by simp
next
  case (Cons x xs)
  then show ?case by (cases x) (simp_all add: begin_when_initialized)
qed

text \<open>A call that meets no other call: its two pieces are two consecutive steps.\<close>

lemma initializeClient_as_steps:
  "fst (run [Enter w env, Answer w] (s, 0)) = (fst (initializeClient w env s), 0)"
  "snd (run [Enter w env, Answer w] (s, 0)) = snd (initializeClient w env s)"
  by (auto simp: initializeClient_def split_beta split: prod.splits progress.splits)

subsection \<open>The concrete worlds\<close>

lemmas test_world_defs =
  test_world_def test_atob_def test_JSON_parse_def graph_payload_text_def
  expired_payload_text_def array_payload_text_def other_payload_text_def

lemmas service_defs =
  initializeClient_def initializeClient_begin_def initializeClient_resume_def
  static_token_branch_def client_credential_branch_def truthy_def
  getClient_def getAuthStatus_def acquireToken_def getAccessToken_def
  new_GraphService_def start_def

lemmas env_defs =
  credential_env_def invalid_token_env_def empty_token_env_def static_token_env_def

lemma valid_token_validates: "validateToken test_world valid_token = Some valid_token"
  by (simp add: validateToken_def valid_token_def test_world_defs get_aud_def isArray_def
        array_includes_def GRAPH_AUDIENCE_def)

lemma invalid_token_rejected: "validateToken test_world ''invalid-token'' = None"
  by (simp add: validateToken_def)

lemma credential_run:
  "run [Enter test_world credential_env, Answer test_world] start =
     ((\<lparr>client = Some (Client 1 MsalBacked), isInitialized = True,
        msalApp = Some (ConfidentialClientApplication ''c'' ''s''
                          ''https://login.microsoftonline.com/t'')\<rparr>, 0),
      [Read_env ''AUTH_TOKEN'', Read_env ''AZURE_TENANT_ID'', Read_env ''AZURE_CLIENT_ID'',
       Read_env ''AZURE_CLIENT_SECRET'',
       Call_new_ConfidentialClientApplication
         (ConfidentialClientApplication ''c'' ''s'' ''https://login.microsoftonline.com/t''),
       Call_acquireTokenByClientCredential [CLIENT_CREDENTIAL_SCOPE],
       Call_initWithMiddleware MsalBacked])"
  by (simp add: service_defs env_defs test_world_def Let_def)

lemma credential_run_ready:
  "fst (run [Enter test_world credential_env, Answer test_world] start) = (ready_service, 0)"
  by (simp only: credential_run fst_conv ready_service_def)

lemma credential_initialization:
  "fst (initializeClient test_world credential_env new_GraphService) = ready_service"
  using initializeClient_as_steps(1) [of test_world credential_env new_GraphService]
    credential_run_ready
  by (simp only: start_def prod.inject)

lemma static_initialization:
  "fst (initializeClient test_world static_token_env new_GraphService) =
     \<lparr>client = Some (Client 1 (FixedToken valid_token)), isInitialized = True,
      msalApp = None\<rparr>"
proof -
  have t: "truthy (static_token_env ''AUTH_TOKEN'') = Some valid_token"
    by (simp add: static_token_env_def truthy_def valid_token_def)
  have i: "initWithMiddleware test_world = Inr 1"
    by (simp add: test_world_def)
  from t valid_token_validates i show ?thesis
    by (simp add: initializeClient_def initializeClient_begin_def static_token_branch_def
          new_GraphService_def)
qed

lemma invalid_initialization:
  "fst (initializeClient test_world invalid_token_env new_GraphService) = new_GraphService"
proof -
  have t: "truthy (invalid_token_env ''AUTH_TOKEN'') = Some ''invalid-token''"
    by (simp add: invalid_token_env_def truthy_def)
  from t invalid_token_rejected show ?thesis
    by (simp add: initializeClient_def initializeClient_begin_def static_token_branch_def
          new_GraphService_def)
qed

lemma message_names_variables:
  "contains MISSING_VARIABLES_MESSAGE ''AZURE_TENANT_ID''"
  "contains MISSING_VARIABLES_MESSAGE ''AZURE_CLIENT_ID''"
  "contains MISSING_VARIABLES_MESSAGE ''AZURE_CLIENT_SECRET''"
  by (simp_all add: MISSING_VARIABLES_MESSAGE_def)

lemma acquire_message_names_variables:
  "contains ACQUIRE_FAILED_MESSAGE ''AZURE_TENANT_ID''"
  "contains ACQUIRE_FAILED_MESSAGE ''AZURE_CLIENT_ID''"
  "contains ACQUIRE_FAILED_MESSAGE ''AZURE_CLIENT_SECRET''"
  by (simp_all add: ACQUIRE_FAILED_MESSAGE_def)

lemma no_configuration_no_client:
  assumes "env ''AUTH_TOKEN'' = None" and "env ''AZURE_TENANT_ID'' = None"
    and "env ''AZURE_CLIENT_ID'' = None" and "env ''AZURE_CLIENT_SECRET'' = None"
  shows "initializeClient w env new_GraphService =
           (new_GraphService,
            [Read_env ''AUTH_TOKEN'', Read_env ''AZURE_TENANT_ID'', Read_env ''AZURE_CLIENT_ID'',
             Read_env ''AZURE_CLIENT_SECRET''])"
  using assms by (simp add: service_defs Let_def)

subsection \<open>Token validation\<close>

text \<open>
  C1. \<^verbatim>\<open>validateToken\<close> returns its input unchanged exactly when the input has three
  dot-separated segments and the middle one base64-decodes and parses to a payload whose
  \<^verbatim>\<open>aud\<close> is the Graph resource URI or an array containing it; on every other input it
  returns \<^verbatim>\<open>undefined\<close>. This holds whatever \<^verbatim>\<open>atob\<close> and \<^verbatim>\<open>JSON.parse\<close> compute.
\<close>

theorem validateToken_accepts_exactly:
  "validateToken w token =
     (if length (split (CHR ''.'') token) = 3 \<and>
         (\<exists>payload. decoded_payload w (split (CHR ''.'') token ! 1) = Some payload \<and>
                    has_graph_audience payload)
      then Some token else None)"
proof (cases "length (split (CHR ''.'') token) = 3")
  case False
  then show ?thesis by (simp add: validateToken_def)
next
  case True
  show ?thesis
  proof (cases "decoded_payload w (split (CHR ''.'') token ! 1)")
    case None
    with True show ?thesis
      by (auto simp: validateToken_def decoded_payload_def split: option.splits)
  next
    case (Some payload)
    with True audience_check_iff [of payload] show ?thesis
      by (auto simp: validateToken_def decoded_payload_def Let_def
               split: option.splits sum.splits)
  qed
qed

text \<open>
  The three tokens of the tests: a Graph audience is accepted; a token without dots and a
  token for another audience are rejected.
\<close>

theorem validateToken_accepts_exactly_witness:
  "validateToken test_world valid_token = Some valid_token \<and>
   validateToken test_world ''invalid-token'' = None \<and>
   validateToken test_world
     ''header.eyJhdWQiOiJodHRwczovL290aGVyLXNlcnZpY2UuY29tIn0=.signature'' = None"
  using validateToken_accepts_exactly [of test_world valid_token]
    validateToken_accepts_exactly [of test_world "''invalid-token''"]
    validateToken_accepts_exactly [of test_world
      "''header.eyJhdWQiOiJodHRwczovL290aGVyLXNlcnZpY2UuY29tIn0=.signature''"]
  by (simp add: valid_token_def decoded_payload_def test_world_defs
        has_graph_audience_def GRAPH_AUDIENCE_def)

text \<open>
  C9. Only the number of segments and the \<^verbatim>\<open>aud\<close> claim count. For segments \<open>a\<close>, \<open>p\<close>,
  \<open>b\<close> (strings without a dot), if \<open>p\<close> decodes to an object whose \<^verbatim>\<open>aud\<close> is the Graph
  resource URI or an array containing it, then \<open>a.p.b\<close> is accepted: whatever \<open>a\<close> and
  \<open>b\<close> are (empty included) and whatever other properties the payload has or lacks
  (\<^verbatim>\<open>exp\<close> among them). Nothing is asked of header, signature or expiry. (A
  base64 text has no dot, so \<open>p\<close> is a segment as soon as it decodes on the platform.)
\<close>

theorem validateToken_checks_audience_only:
  assumes "CHR ''.'' \<notin> set a" and "CHR ''.'' \<notin> set p" and "CHR ''.'' \<notin> set b"
    and "decoded_payload w p = Some (JObject props)"
    and "map_of props ''aud'' = Some (JString GRAPH_AUDIENCE) \<or>
         (\<exists>xs. map_of props ''aud'' = Some (JArray xs) \<and> JString GRAPH_AUDIENCE \<in> set xs)"
  shows "validateToken w (a @ ''.'' @ p @ ''.'' @ b) = Some (a @ ''.'' @ p @ ''.'' @ b)"
proof -
  have segs: "split (CHR ''.'') (a @ ''.'' @ p @ ''.'' @ b) = [a, p, b]"
    using split_three [OF assms(1-3)] by simp
  have "has_graph_audience (JObject props)"
    using assms(5) by (auto simp: has_graph_audience_def)
  with assms(4) segs show ?thesis
    using audience_check_iff [of "JObject props"]
    by (auto simp: validateToken_def decoded_payload_def Let_def
             split: option.splits sum.splits)
qed

text \<open>
  A token with empty header and signature whose payload carries \<^verbatim>\<open>"exp":0\<close>, and the
  tests' token with the audience in an array.
\<close>

theorem validateToken_checks_audience_only_witness:
  "decoded_payload test_world ''eyJhdWQiOiJodHRwczovL2dyYXBoLm1pY3Jvc29mdC5jb20iLCJleHAiOjB9''
     = Some (JObject [(''aud'', JString GRAPH_AUDIENCE), (''exp'', JNumber ''0'')]) \<and>
   validateToken test_world expired_unsigned_token = Some expired_unsigned_token \<and>
   decoded_payload test_world
     ''eyJhdWQiOlsiaHR0cHM6Ly9ncmFwaC5taWNyb3NvZnQuY29tIiwiaHR0cHM6Ly9vdGhlci5jb20iXX0=''
     = Some (JObject [(''aud'', JArray [JString GRAPH_AUDIENCE, JString ''https://other.com''])]) \<and>
   validateToken test_world
     ''header.eyJhdWQiOlsiaHR0cHM6Ly9ncmFwaC5taWNyb3NvZnQuY29tIiwiaHR0cHM6Ly9vdGhlci5jb20iXX0=.signature''
     = Some ''header.eyJhdWQiOlsiaHR0cHM6Ly9ncmFwaC5taWNyb3NvZnQuY29tIiwiaHR0cHM6Ly9vdGhlci5jb20iXX0=.signature''"
proof -
  have d1: "decoded_payload test_world
              ''eyJhdWQiOiJodHRwczovL2dyYXBoLm1pY3Jvc29mdC5jb20iLCJleHAiOjB9''
            = Some (JObject [(''aud'', JString GRAPH_AUDIENCE), (''exp'', JNumber ''0'')])"
    by (simp add: decoded_payload_def test_world_defs GRAPH_AUDIENCE_def)
  have d2: "decoded_payload test_world
              ''eyJhdWQiOlsiaHR0cHM6Ly9ncmFwaC5taWNyb3NvZnQuY29tIiwiaHR0cHM6Ly9vdGhlci5jb20iXX0=''
            = Some (JObject [(''aud'', JArray [JString GRAPH_AUDIENCE,
                                               JString ''https://other.com''])])"
    by (simp add: decoded_payload_def test_world_defs GRAPH_AUDIENCE_def)
  from validateToken_checks_audience_only
         [of "[]" "''eyJhdWQiOiJodHRwczovL2dyYXBoLm1pY3Jvc29mdC5jb20iLCJleHAiOjB9''" "[]"
             test_world, OF _ _ _ d1]
  have v1: "validateToken test_world expired_unsigned_token = Some expired_unsigned_token"
    by (simp add: expired_unsigned_token_def)
  from validateToken_checks_audience_only
         [of "''header''"
             "''eyJhdWQiOlsiaHR0cHM6Ly9ncmFwaC5taWNyb3NvZnQuY29tIiwiaHR0cHM6Ly9vdGhlci5jb20iXX0=''"
             "''signature''" test_world, OF _ _ _ d2]
  have v2: "validateToken test_world
     ''header.eyJhdWQiOlsiaHR0cHM6Ly9ncmFwaC5taWNyb3NvZnQuY29tIiwiaHR0cHM6Ly9vdGhlci5jb20iXX0=.signature''
     = Some ''header.eyJhdWQiOlsiaHR0cHM6Ly9ncmFwaC5taWNyb3NvZnQuY29tIiwiaHR0cHM6Ly9vdGhlci5jb20iXX0=.signature''"
    by simp
  from d1 d2 v1 v2 show ?thesis by (simp only: simp_thms)
qed

subsection \<open>Choosing the branch\<close>

text \<open>
  C2, as the code has it. The guard is \<^verbatim>\<open>if (envToken)\<close>, so the static-token branch is
  taken when \<^verbatim>\<open>AUTH_TOKEN\<close> is a non-empty string. Then \<^verbatim>\<open>initializeClient\<close> returns
  without waiting for the issuer; it reads no variable but \<^verbatim>\<open>AUTH_TOKEN\<close> and calls
  nothing but (for a valid token) the client factory, also when reached through
  \<^verbatim>\<open>getClient\<close>, and \<^verbatim>\<open>getAuthStatus\<close> begins with this same initialization; it leaves
  the MSAL application alone; its outcome is the same whatever
  the other variables hold and whatever the MSAL constructor and the issuer would answer;
  and with an invalid token it leaves the service as it was.
\<close>

theorem static_token_never_touches_credentials:
  assumes "truthy (env ''AUTH_TOKEN'') = Some t"
  shows "fst (initializeClient_begin w env s) = Returned \<and>
         set (snd (initializeClient w env s))
           \<subseteq> {Read_env ''AUTH_TOKEN'', Call_initWithMiddleware (FixedToken t)} \<and>
         set (snd (snd (getClient w env s)))
           \<subseteq> {Read_env ''AUTH_TOKEN'', Call_initWithMiddleware (FixedToken t)} \<and>
         fst (snd (getAuthStatus w env s)) = fst (initializeClient w env s) \<and>
         (\<exists>rest. snd (snd (getAuthStatus w env s)) = snd (initializeClient w env s) @ rest) \<and>
         msalApp (fst (initializeClient w env s)) = msalApp s \<and>
         (\<forall>env' x y. env' ''AUTH_TOKEN'' = env ''AUTH_TOKEN'' \<longrightarrow>
            initializeClient
              (w\<lparr>new_ConfidentialClientApplication := x, acquireTokenByClientCredential := y\<rparr>)
              env' s
            = initializeClient w env s) \<and>
         (validateToken w t = None \<longrightarrow> fst (initializeClient w env s) = s)"
proof -
  have v: "validateToken
             (w\<lparr>new_ConfidentialClientApplication := x, acquireTokenByClientCredential := y\<rparr>) t
           = validateToken w t" for x y
    by (simp add: validateToken_def Let_def split: option.splits)
  show ?thesis
    using assms
    by (auto simp: initializeClient_def initializeClient_begin_def static_token_branch_def v
               getClient_events getAuthStatus_def
             dest: validateToken_returns_input
             split: option.splits sum.splits prod.splits)
qed

text \<open>
  The tests' \<^verbatim>\<open>AUTH_TOKEN = "invalid-token"\<close>, with the three credential variables set
  and an issuer that would answer: the service stays as it was.
\<close>

theorem static_token_never_touches_credentials_witness:
  "truthy (invalid_token_env ''AUTH_TOKEN'') = Some ''invalid-token'' \<and>
   validateToken test_world ''invalid-token'' = None \<and>
   fst (initializeClient test_world invalid_token_env new_GraphService) = new_GraphService \<and>
   set (snd (initializeClient test_world invalid_token_env new_GraphService))
     \<subseteq> {Read_env ''AUTH_TOKEN'', Call_initWithMiddleware (FixedToken ''invalid-token'')}"
proof -
  have t: "truthy (invalid_token_env ''AUTH_TOKEN'') = Some ''invalid-token''"
    by (simp add: invalid_token_env_def truthy_def)
  from static_token_never_touches_credentials
         [of invalid_token_env "''invalid-token''" test_world new_GraphService, OF t]
    invalid_token_rejected t
  show ?thesis by simp
qed

text \<open>
  C2 as stated fails for \<^verbatim>\<open>AUTH_TOKEN\<close> set to the empty string: the guard is false, the
  three credential variables are read, the issuer is asked, and the service ends up in
  client-credential mode.
\<close>

theorem empty_token_falls_through:
  "empty_token_env ''AUTH_TOKEN'' = Some [] \<and>
   Read_env ''AZURE_TENANT_ID''
     \<in> set (snd (initializeClient test_world empty_token_env new_GraphService)) \<and>
   Read_env ''AZURE_CLIENT_ID''
     \<in> set (snd (initializeClient test_world empty_token_env new_GraphService)) \<and>
   Read_env ''AZURE_CLIENT_SECRET''
     \<in> set (snd (initializeClient test_world empty_token_env new_GraphService)) \<and>
   Call_acquireTokenByClientCredential [CLIENT_CREDENTIAL_SCOPE]
     \<in> set (snd (initializeClient test_world empty_token_env new_GraphService)) \<and>
   client (fst (initializeClient test_world empty_token_env new_GraphService))
     = Some (Client 1 MsalBacked)"
  by (simp add: service_defs env_defs test_world_def Let_def)

subsection \<open>Initializing once\<close>




subsection \<open>The probe\<close>

text \<open>
  C4. In every state the service can reach in which a client exists, a failing probe
  makes \<^verbatim>\<open>getAuthStatus\<close> return \<^verbatim>\<open>{isAuthenticated: false}\<close>; it has called the probe
  and nothing else, and the service is as before. A \<^verbatim>\<open>getClient\<close> in that state,
  in any world and environment, returns the same client without running the
  initialization body.
\<close>

theorem probe_failure_keeps_session:
  assumes "fst (run steps start) = (s, n)" and "client s = Some c"
    and "organization_get w = Some e"
  shows "getAuthStatus w env s =
           (\<lparr>isAuthenticated = False, tenantId = None, clientId = None\<rparr>, s,
            [Call_api_get ''/organization'']) \<and>
         getClient w' env' s = (Inr c, s, [])"
proof -
  from reached_client_iff [OF assms(1)] assms(2) have i: "isInitialized s" by simp
  with assms(2,3) show ?thesis
    by (simp add: getAuthStatus_def getClient_def initializeClient_when_initialized)
qed

theorem probe_failure_keeps_session_witness:
  "fst (run [Enter test_world credential_env, Answer test_world] start) = (ready_service, 0) \<and>
   client ready_service = Some (Client 1 MsalBacked) \<and>
   organization_get failing_probe_world = Some (Error ''API Error'') \<and>
   getAuthStatus failing_probe_world credential_env ready_service =
     (\<lparr>isAuthenticated = False, tenantId = None, clientId = None\<rparr>, ready_service,
      [Call_api_get ''/organization'']) \<and>
   getClient failing_probe_world Map.empty ready_service
     = (Inr (Client 1 MsalBacked), ready_service, [])"
proof -
  have c: "client ready_service = Some (Client 1 MsalBacked)"
    by (simp add: ready_service_def)
  have p: "organization_get failing_probe_world = Some (Error ''API Error'')"
    by (simp add: failing_probe_world_def)
  from probe_failure_keeps_session [OF credential_run_ready c p] credential_run_ready c p
  show ?thesis by simp
qed

text \<open>
  C6. Whenever \<^verbatim>\<open>getAuthStatus\<close> has a client after initialization and the probe succeeds,
  it reports the tenant and client identifiers of the environment of this very call,
  whatever state the service was in and however it got there; and it reports
  authenticated only in that case.
\<close>

theorem getAuthStatus_reports_live_environment:
  "(client (fst (initializeClient w env s)) \<noteq> None \<and> organization_get w = None \<longrightarrow>
      fst (getAuthStatus w env s) =
        \<lparr>isAuthenticated = True, tenantId = env ''AZURE_TENANT_ID'',
         clientId = env ''AZURE_CLIENT_ID''\<rparr>) \<and>
   (isAuthenticated (fst (getAuthStatus w env s)) \<longrightarrow>
      organization_get w = None \<and>
      tenantId (fst (getAuthStatus w env s)) = env ''AZURE_TENANT_ID'' \<and>
      clientId (fst (getAuthStatus w env s)) = env ''AZURE_CLIENT_ID'')"
  by (auto simp: getAuthStatus_def split_beta split: option.splits)

text \<open>
  The scenario \<^verbatim>\<open>AZURE_TENANT_ID=t\<close>, \<^verbatim>\<open>AZURE_CLIENT_ID=c\<close>, \<^verbatim>\<open>AZURE_CLIENT_SECRET=s\<close>; and a
  later call, after the identifiers in the environment have become \<open>t2\<close> and \<open>c2\<close>.
\<close>

theorem getAuthStatus_reports_live_environment_witness:
  "fst (getAuthStatus test_world credential_env new_GraphService) =
     \<lparr>isAuthenticated = True, tenantId = Some ''t'', clientId = Some ''c''\<rparr> \<and>
   fst (initializeClient test_world credential_env new_GraphService) = ready_service \<and>
   fst (getAuthStatus test_world rotated_env ready_service) =
     \<lparr>isAuthenticated = True, tenantId = Some ''t2'', clientId = Some ''c2''\<rparr>"
proof -
  have b: "initializeClient test_world rotated_env ready_service = (ready_service, [])"
    by (simp add: initializeClient_when_initialized ready_service_def)
  have c: "client ready_service = Some (Client 1 MsalBacked)"
    "organization_get test_world = None"
    by (simp_all add: ready_service_def test_world_def)
  from getAuthStatus_reports_live_environment [of test_world credential_env new_GraphService]
    getAuthStatus_reports_live_environment [of test_world rotated_env ready_service]
    credential_initialization b c
  show ?thesis
    by (simp add: credential_env_def rotated_env_def)
qed

subsection \<open>Asking for the client\<close>

text \<open>
  C5. Whenever there is no client after initialization, \<^verbatim>\<open>getClient\<close> throws an error
  whose message contains the three variable names; with none of the four variables set
  and a new service that is what happens.
\<close>

theorem getClient_error_names_variables:
  "(client (fst (initializeClient w env s)) = None \<longrightarrow>
      (\<exists>e. fst (getClient w env s) = Inl e \<and>
           contains (message e) ''AZURE_TENANT_ID'' \<and>
           contains (message e) ''AZURE_CLIENT_ID'' \<and>
           contains (message e) ''AZURE_CLIENT_SECRET'')) \<and>
   (env ''AUTH_TOKEN'' = None \<and> env ''AZURE_TENANT_ID'' = None \<and>
    env ''AZURE_CLIENT_ID'' = None \<and> env ''AZURE_CLIENT_SECRET'' = None \<longrightarrow>
      fst (getClient w env new_GraphService) = Inl (Error MISSING_VARIABLES_MESSAGE))"
proof (intro conjI impI)
  assume "client (fst (initializeClient w env s)) = None"
  then have "fst (getClient w env s) = Inl (Error MISSING_VARIABLES_MESSAGE)"
    by (simp add: getClient_def split_beta)
  with message_names_variables
  show "\<exists>e. fst (getClient w env s) = Inl e \<and>
           contains (message e) ''AZURE_TENANT_ID'' \<and>
           contains (message e) ''AZURE_CLIENT_ID'' \<and>
           contains (message e) ''AZURE_CLIENT_SECRET''"
    by simp
next
  assume "env ''AUTH_TOKEN'' = None \<and> env ''AZURE_TENANT_ID'' = None \<and>
    env ''AZURE_CLIENT_ID'' = None \<and> env ''AZURE_CLIENT_SECRET'' = None"
  then have "initializeClient w env new_GraphService =
           (new_GraphService,
            [Read_env ''AUTH_TOKEN'', Read_env ''AZURE_TENANT_ID'', Read_env ''AZURE_CLIENT_ID'',
             Read_env ''AZURE_CLIENT_SECRET''])"
    by (simp add: no_configuration_no_client)
  then show "fst (getClient w env new_GraphService) = Inl (Error MISSING_VARIABLES_MESSAGE)"
    by (simp add: getClient_def new_GraphService_def)
qed

theorem getClient_error_names_variables_witness:
  "client (fst (initializeClient test_world Map.empty new_GraphService)) = None \<and>
   fst (getClient test_world Map.empty new_GraphService)
     = Inl (Error MISSING_VARIABLES_MESSAGE) \<and>
   contains MISSING_VARIABLES_MESSAGE ''AZURE_TENANT_ID'' \<and>
   contains MISSING_VARIABLES_MESSAGE ''AZURE_CLIENT_ID'' \<and>
   contains MISSING_VARIABLES_MESSAGE ''AZURE_CLIENT_SECRET''"
proof -
  have n: "client (fst (initializeClient test_world Map.empty new_GraphService)) = None"
    by (simp add: no_configuration_no_client) (simp add: new_GraphService_def)
  from getClient_error_names_variables [of test_world Map.empty new_GraphService] n
  show ?thesis by auto
qed

subsection \<open>The credential mode\<close>

lemma initialization_success_mode:
  assumes "\<not> isInitialized s" and "isInitialized (fst (initializeClient w env s))"
  shows "active_mode (fst (initializeClient w env s)) = Some (selected_mode env)"
  using assms
  by (auto simp: initializeClient_def initializeClient_begin_def initializeClient_resume_def
        static_token_branch_def client_credential_branch_def selected_mode_def active_mode_def
        Let_def
      split: option.splits sum.splits prod.splits issuer_result.splits)

text \<open>
  C7, as the code has it. The mode is fixed by the first initialization that succeeds.
  Once the flag is set and no run of \<^verbatim>\<open>initializeClient\<close> is waiting for the issuer, a mode
  is active and no further step changes it, whatever the environments of later calls.
  While the flag is clear no mode is active, and an initialization that then succeeds
  installs the mode its own environment selects.
\<close>

theorem mode_fixed_by_first_success:
  "(fst (run steps start) = (s, 0) \<and> isInitialized s \<longrightarrow>
      active_mode s \<noteq> None \<and>
      (\<forall>more. active_mode (fst (fst (run more (s, 0)))) = active_mode s)) \<and>
   (fst (run steps start) = (s, n) \<and> \<not> isInitialized s \<longrightarrow> active_mode s = None) \<and>
   (\<not> isInitialized s \<and> isInitialized (fst (initializeClient w env s)) \<longrightarrow>
      active_mode (fst (initializeClient w env s)) = Some (selected_mode env))"
proof (intro conjI impI allI)
  assume a: "fst (run steps start) = (s, 0) \<and> isInitialized s"
  with reached_client_iff [of steps s 0] show "active_mode s \<noteq> None"
    by (auto simp: active_mode_def split: auth_provider.splits)
next
  assume "fst (run steps start) = (s, n) \<and> \<not> isInitialized s"
  with reached_client_iff [of steps s n] show "active_mode s = None"
    by (simp add: active_mode_def)
next
  fix more
  assume "fst (run steps start) = (s, 0) \<and> isInitialized s"
  then show "active_mode (fst (fst (run more (s, 0)))) = active_mode s"
    by (simp add: run_when_initialized)
next
  assume "\<not> isInitialized s \<and> isInitialized (fst (initializeClient w env s))"
  then show "active_mode (fst (initializeClient w env s)) = Some (selected_mode env)"
    by (simp add: initialization_success_mode)
qed

text \<open>
  A service initialized in client-credential mode stays in it when a later call finds a
  valid \<^verbatim>\<open>AUTH_TOKEN\<close>; a new service under that environment ends in static-token mode.
\<close>

theorem mode_fixed_by_first_success_witness:
  "fst (run [Enter test_world credential_env, Answer test_world] start) = (ready_service, 0) \<and>
   isInitialized ready_service \<and>
   active_mode ready_service = Some ClientCredential \<and>
   selected_mode static_token_env = StaticToken \<and>
   active_mode (fst (fst (run [Enter test_world static_token_env, Answer test_world]
                            (ready_service, 0)))) = Some ClientCredential \<and>
   \<not> isInitialized new_GraphService \<and>
   isInitialized (fst (initializeClient test_world static_token_env new_GraphService)) \<and>
   active_mode (fst (initializeClient test_world static_token_env new_GraphService))
     = Some StaticToken"
proof -
  have i: "isInitialized ready_service" "active_mode ready_service = Some ClientCredential"
    by (simp_all add: ready_service_def active_mode_def)
  have n: "\<not> isInitialized new_GraphService"
    by (simp add: new_GraphService_def)
  have s: "isInitialized (fst (initializeClient test_world static_token_env new_GraphService))"
    by (simp add: static_initialization)
  have m: "selected_mode static_token_env = StaticToken"
    by (simp add: selected_mode_def static_token_env_def truthy_def valid_token_def)
  from mode_fixed_by_first_success
         [of "[Enter test_world credential_env, Answer test_world]" ready_service 0
             test_world static_token_env]
    credential_run_ready i
  have "\<forall>more. active_mode (fst (fst (run more (ready_service, 0)))) = Some ClientCredential"
    by simp
  then have later:
    "active_mode (fst (fst (run [Enter test_world static_token_env, Answer test_world]
                            (ready_service, 0)))) = Some ClientCredential"
    by (rule spec)
  from mode_fixed_by_first_success [of "[]" new_GraphService 0 test_world static_token_env]
    n s m
  have "active_mode (fst (initializeClient test_world static_token_env new_GraphService))
          = Some StaticToken"
    by simp
  with credential_run_ready i n s m later show ?thesis
    by (simp only: simp_thms)
qed

text \<open>
  C7 as stated fails: the first attempt does not fix the mode. Under
  \<^verbatim>\<open>AUTH_TOKEN = "invalid-token"\<close> the first attempt takes the static-token branch and
  leaves no mode active; with the variable gone from the environment, the next call
  initializes in client-credential mode.
\<close>

theorem mode_follows_later_environment:
  "selected_mode invalid_token_env = StaticToken \<and>
   active_mode (fst (initializeClient test_world invalid_token_env new_GraphService)) = None \<and>
   selected_mode credential_env = ClientCredential \<and>
   active_mode
     (fst (initializeClient test_world credential_env
            (fst (initializeClient test_world invalid_token_env new_GraphService))))
     = Some ClientCredential"
  by (simp add: invalid_initialization credential_initialization)
     (simp add: selected_mode_def active_mode_def truthy_def env_defs
        new_GraphService_def ready_service_def)

subsection \<open>The token supplier\<close>

text \<open>
  C8, as the code has it. In every state the service can reach whose client asks the
  issuer for its tokens, each invocation of \<^verbatim>\<open>getAccessToken\<close> sends one request to the
  issuer and its result is decided by the answer to that request alone: the access token
  of the answer; the error naming the three variables when the answer is \<^verbatim>\<open>null\<close>; and
  the issuer's own error, unchanged, when the request is rejected.
\<close>

theorem getAccessToken_asks_issuer_every_time:
  assumes "fst (run steps start) = (s, n)" and "client s = Some c"
    and "authProvider c = MsalBacked"
  shows "snd (getAccessToken w s c)
           = [Call_acquireTokenByClientCredential [CLIENT_CREDENTIAL_SCOPE]] \<and>
         fst (getAccessToken w s c) =
           (case acquireTokenByClientCredential w of
              IssuerRejects e \<Rightarrow> Inl e
            | IssuerNull \<Rightarrow> Inl (Error ACQUIRE_FAILED_MESSAGE)
            | IssuerResult t \<Rightarrow> Inr t) \<and>
         contains ACQUIRE_FAILED_MESSAGE ''AZURE_TENANT_ID'' \<and>
         contains ACQUIRE_FAILED_MESSAGE ''AZURE_CLIENT_ID'' \<and>
         contains ACQUIRE_FAILED_MESSAGE ''AZURE_CLIENT_SECRET''"
proof -
  from reached_invariant [of steps] assms have "msalApp s \<noteq> None"
    by (simp add: process_invariant_def)
  then obtain app where "msalApp s = Some app" by auto
  with assms(3) acquire_message_names_variables show ?thesis
    by (simp add: getAccessToken_def acquireToken_def)
qed

text \<open>
  Three invocations on the same service: two answers with different tokens, each handed
  on, and a \<^verbatim>\<open>null\<close> answer.
\<close>

theorem getAccessToken_asks_issuer_every_time_witness:
  "fst (run [Enter test_world credential_env, Answer test_world] start) = (ready_service, 0) \<and>
   client ready_service = Some (Client 1 MsalBacked) \<and>
   authProvider (Client 1 MsalBacked) = MsalBacked \<and>
   getAccessToken test_world ready_service (Client 1 MsalBacked) =
     (Inr ''mock-access-token'', [Call_acquireTokenByClientCredential [CLIENT_CREDENTIAL_SCOPE]]) \<and>
   getAccessToken (test_world\<lparr>acquireTokenByClientCredential := IssuerResult ''next-token''\<rparr>)
       ready_service (Client 1 MsalBacked) =
     (Inr ''next-token'', [Call_acquireTokenByClientCredential [CLIENT_CREDENTIAL_SCOPE]]) \<and>
   getAccessToken (test_world\<lparr>acquireTokenByClientCredential := IssuerNull\<rparr>)
       ready_service (Client 1 MsalBacked) =
     (Inl (Error ACQUIRE_FAILED_MESSAGE),
      [Call_acquireTokenByClientCredential [CLIENT_CREDENTIAL_SCOPE]])"
proof -
  have c: "client ready_service = Some (Client 1 MsalBacked)"
    by (simp add: ready_service_def)
  have a: "authProvider (Client 1 MsalBacked) = MsalBacked"
    by simp
  note t = getAccessToken_asks_issuer_every_time [OF credential_run_ready c a]
  from t [of test_world]
    t [of "test_world\<lparr>acquireTokenByClientCredential := IssuerResult ''next-token''\<rparr>"]
    t [of "test_world\<lparr>acquireTokenByClientCredential := IssuerNull\<rparr>"]
    credential_run_ready c
  show ?thesis
    by (simp add: test_world_def prod_eq_iff)
qed

text \<open>
  C8 as stated fails when the issuer rejects the request: the error raised is the
  issuer's, and it names none of the three variables.
\<close>

theorem issuer_rejection_propagates:
  "fst (run [Enter test_world credential_env, Answer test_world] start) = (ready_service, 0) \<and>
   client ready_service = Some (Client 1 MsalBacked) \<and>
   fst (getAccessToken rejecting_issuer_world ready_service (Client 1 MsalBacked))
     = Inl (Error ''Invalid client secret'') \<and>
   \<not> contains ''Invalid client secret'' ''AZURE_TENANT_ID'' \<and>
   \<not> contains ''Invalid client secret'' ''AZURE_CLIENT_ID'' \<and>
   \<not> contains ''Invalid client secret'' ''AZURE_CLIENT_SECRET''"
  using credential_run_ready
  by (simp add: ready_service_def rejecting_issuer_world_def test_world_def
        getAccessToken_def acquireToken_def)

subsection \<open>The state invariant\<close>

lemma begin_keeps_client_when_initialized:
  "client_when_initialized s \<Longrightarrow>
     client_when_initialized (fst (snd (initializeClient_begin w env s)))"
  using begin_cases [of w env s]
  by (cases "initializeClient_begin w env s") (auto simp: client_when_initialized_def)

lemma resume_keeps_client_when_initialized:
  "client_when_initialized s \<Longrightarrow> client_when_initialized (fst (initializeClient_resume w s))"
  using resume_cases [of w s]
  by (cases "initializeClient_resume w s") (auto simp: client_when_initialized_def)

lemma initializeClient_keeps_client_when_initialized:
  assumes "client_when_initialized s"
  shows "client_when_initialized (fst (initializeClient w env s))"
proof (cases "initializeClient_begin w env s")
  case (fields p s' evs)
  with begin_keeps_client_when_initialized [OF assms, of w env]
  have s': "client_when_initialized s'" by simp
  show ?thesis
  proof (cases p)
    case Returned
    with fields s' show ?thesis by (simp add: initializeClient_def)
  next
    case Awaiting_issuer
    with fields resume_keeps_client_when_initialized [OF s', of w] show ?thesis
      by (simp add: initializeClient_def split_beta)
  qed
qed

text \<open>
  C10. A new service satisfies the invariant (flag set only with a client), and each
  piece of \<^verbatim>\<open>initializeClient\<close>, the whole of it, \<^verbatim>\<open>getAuthStatus\<close> and \<^verbatim>\<open>getClient\<close> keep
  it (\<^verbatim>\<open>isAuthenticated\<close>, \<^verbatim>\<open>acquireToken\<close> and \<^verbatim>\<open>validateToken\<close> write no field). Under
  the invariant \<^verbatim>\<open>isAuthenticated()\<close> is the flag. Where \<^verbatim>\<open>isAuthenticated()\<close> is true,
  \<^verbatim>\<open>getClient\<close> does not throw: it returns the client.
\<close>

theorem initialized_only_with_client:
  "client_when_initialized new_GraphService \<and>
   (client_when_initialized s \<longrightarrow>
      client_when_initialized (fst (snd (initializeClient_begin w env s))) \<and>
      client_when_initialized (fst (initializeClient_resume w s)) \<and>
      client_when_initialized (fst (initializeClient w env s)) \<and>
      client_when_initialized (fst (snd (getAuthStatus w env s))) \<and>
      client_when_initialized (fst (snd (getClient w env s))) \<and>
      isAuthenticated_method s = isInitialized s) \<and>
   (isAuthenticated_method s \<longrightarrow>
      (\<exists>c. client s = Some c \<and> getClient w env s = (Inr c, s, [])))"
proof (intro conjI impI)
  show "client_when_initialized new_GraphService"
    by (simp add: client_when_initialized_def new_GraphService_def)
next
  assume "isAuthenticated_method s"
  then show "\<exists>c. client s = Some c \<and> getClient w env s = (Inr c, s, [])"
    by (auto simp: isAuthenticated_method_def getClient_when_initialized)
qed (simp_all add: begin_keeps_client_when_initialized resume_keeps_client_when_initialized
       initializeClient_keeps_client_when_initialized method_states,
     auto simp: client_when_initialized_def isAuthenticated_method_def)

theorem initialized_only_with_client_witness:
  "client_when_initialized new_GraphService \<and>
   client_when_initialized ready_service \<and>
   fst (initializeClient test_world credential_env new_GraphService) = ready_service \<and>
   \<not> isAuthenticated_method new_GraphService \<and>
   isAuthenticated_method ready_service \<and>
   getClient test_world Map.empty ready_service
     = (Inr (Client 1 MsalBacked), ready_service, [])"
proof -
  have a: "isAuthenticated_method ready_service" "\<not> isAuthenticated_method new_GraphService"
    by (simp_all add: isAuthenticated_method_def ready_service_def new_GraphService_def)
  from initialized_only_with_client [of new_GraphService test_world credential_env]
    initialized_only_with_client [of ready_service test_world Map.empty]
    credential_initialization a
  show ?thesis
    by (auto simp: ready_service_def)
qed

end
